theory Spec2Isabelle
  imports Main "HOL-Library.Word"
begin

unbundle bit_operations_syntax

section \<open>base_definitions.h\<close>

text \<open>
  The header consists of function-like macros and two enumerations. The macros are
  embedded as functions of the values of their arguments; the two enumerations as the
  tables of enumerators the header declares.

  Integer model. \<open>unsigned int\<close> is taken to be 32 bits wide, which is what the
  specification fixes for the counter and for the mask of the bit operations. A value of
  an unsigned type of \<open>w\<close> bits is a \<open>w word\<close>: \<open>+\<close> and \<open>-\<close> wrap around, \<open><\<close> is the
  unsigned comparison, and \<open>ucast\<close> is the conversion between unsigned types
  (zero extension to a wider type, truncation to a narrower one).
\<close>

subsection \<open>Timeout\<close>

text \<open>
  Modelled from the spec: \<open>limits.h\<close> is a system header and not part of the repository;
  \<open>UINT_MAX\<close> is the largest value of a 32-bit \<open>unsigned int\<close>.
\<close>

definition UINT_MAX :: "32 word" where
  "UINT_MAX = 0xFFFFFFFF"

text \<open>
  \<^verbatim>\<open>#define iTIMEOUT(start, current, timeout) \
    (((start) < (current) ? (start) - (UINT_MAX - (current)) : (start) - (current)) < (timeout) ? 0 : 1)\<close>

  The three arguments are unsigned 32-bit counter values; the result is the \<open>int\<close> 0 or 1.
\<close>

definition iTIMEOUT_elapsed :: "32 word \<Rightarrow> 32 word \<Rightarrow> 32 word" where
  "iTIMEOUT_elapsed start current =
     (if start < current then start - (UINT_MAX - current) else start - current)"

definition iTIMEOUT :: "32 word \<Rightarrow> 32 word \<Rightarrow> 32 word \<Rightarrow> int" where
  "iTIMEOUT start current timeout =
     (if iTIMEOUT_elapsed start current < timeout then 0 else 1)"

text \<open>
  The specification's timeout predicate, in its own words: the elapsed time is
  \<open>current - start\<close> when \<open>start \<le> current\<close>, and the difference on the ring of the
  counter (of size \<open>2 ^ 32\<close>) when the counter has wrapped; the timeout has expired when
  the elapsed time is at least \<open>timeout\<close>.
\<close>

definition spec_elapsed :: "32 word \<Rightarrow> 32 word \<Rightarrow> nat" where
  "spec_elapsed start current =
     (if start \<le> current then unat current - unat start
      else (2 ^ 32 + unat current) - unat start)"

definition spec_timeout_expired :: "32 word \<Rightarrow> 32 word \<Rightarrow> 32 word \<Rightarrow> bool" where
  "spec_timeout_expired start current timeout \<longleftrightarrow> unat timeout \<le> spec_elapsed start current"

subsection \<open>Array size\<close>

text \<open>
  \<^verbatim>\<open>#define ARRAY_SIZE(arr) (sizeof(arr) / sizeof((arr)[0]))\<close>

  An array object \<open>T arr[N]\<close> is its \<open>N\<close> elements together with \<open>sizeof(T)\<close>, the number of
  bytes of one element. The elements of an array are laid out without gaps, so
  \<open>sizeof(arr)\<close> is \<open>N * sizeof(T)\<close>; \<open>(arr)[0]\<close> has type \<open>T\<close>. The division is the
  division of \<open>size_t\<close>.
\<close>

datatype 'a c_array = C_Array (sizeof_elem: nat) (elems: "'a list")

definition sizeof_array :: "'a c_array \<Rightarrow> nat" where
  "sizeof_array arr = length (elems arr) * sizeof_elem arr"

definition ARRAY_SIZE :: "'a c_array \<Rightarrow> nat" where
  "ARRAY_SIZE arr = sizeof_array arr div sizeof_elem arr"

subsection \<open>Minimum, maximum, clamp\<close>

text \<open>
  \<^verbatim>\<open>#define MIN(a, b) ((a) < (b) ? (a) : (b))\<close>
  \<^verbatim>\<open>#define MAX(a, b) ((a) > (b) ? (a) : (b))\<close>
  \<^verbatim>\<open>#define CLAMP(val, min, max) (MAX((min), MIN((val), (max))))\<close>

  The operands are values of one arithmetic type, that is of one linear order. (The names
  \<open>MIN\<close> and \<open>MAX\<close> are taken by the notation of HOL, hence the suffix.)
\<close>

definition MIN_macro :: "'a::linorder \<Rightarrow> 'a \<Rightarrow> 'a" where
  "MIN_macro a b = (if a < b then a else b)"

definition MAX_macro :: "'a::linorder \<Rightarrow> 'a \<Rightarrow> 'a" where
  "MAX_macro a b = (if a > b then a else b)"

definition CLAMP :: "'a::linorder \<Rightarrow> 'a \<Rightarrow> 'a \<Rightarrow> 'a" where
  "CLAMP val lo hi = MAX_macro lo (MIN_macro val hi)"

subsection \<open>Bit operations\<close>

text \<open>
  Every bit macro builds its mask as \<^verbatim>\<open>(1U << (bit))\<close>: a shift of an \<open>unsigned int\<close>.
  The shift is defined for a shift count from 0 to 31 only; for a negative count and for
  a count of 32 or more the behaviour is undefined, which is the result \<open>None\<close> here.
\<close>

definition shl_1U :: "int \<Rightarrow> 32 word option" where
  "shl_1U b = (if 0 \<le> b \<and> b < 32 then Some (push_bit (nat b) 1) else None)"

text \<open>
  \<^verbatim>\<open>#define SET_BIT(var, bit)      ((var) |= (1U << (bit)))\<close>
  \<^verbatim>\<open>#define CLEAR_BIT(var, bit)    ((var) &= ~(1U << (bit)))\<close>
  \<^verbatim>\<open>#define TOGGLE_BIT(var, bit)   ((var) ^= (1U << (bit)))\<close>
  \<^verbatim>\<open>#define IS_BIT_SET(var, bit)   (((var) & (1U << (bit))) != 0)\<close>
  \<^verbatim>\<open>#define IS_BIT_CLEAR(var, bit) (((var) & (1U << (bit))) == 0)\<close>

  \<open>var\<close> is a variable of an unsigned type of any width, an \<open>'a word\<close>. The first three
  macros assign to \<open>var\<close>; they return its new value. The mask, and in \<open>CLEAR_BIT\<close> its
  complement \<^verbatim>\<open>~(1U << (bit))\<close>, is computed in \<open>unsigned int\<close> and only then converted to
  the type of the operation: zero-extended when \<open>var\<close> is wider than 32 bits, and the result
  truncated to the type of \<open>var\<close> when \<open>var\<close> is narrower. On words both are \<open>ucast\<close>.
\<close>

definition SET_BIT :: "'a::len word \<Rightarrow> int \<Rightarrow> 'a word option" where
  "SET_BIT var b =
     (case shl_1U b of None \<Rightarrow> None | Some m \<Rightarrow> Some (var OR ucast m))"

definition CLEAR_BIT :: "'a::len word \<Rightarrow> int \<Rightarrow> 'a word option" where
  "CLEAR_BIT var b =
     (case shl_1U b of None \<Rightarrow> None | Some m \<Rightarrow> Some (var AND ucast (NOT m)))"

definition TOGGLE_BIT :: "'a::len word \<Rightarrow> int \<Rightarrow> 'a word option" where
  "TOGGLE_BIT var b =
     (case shl_1U b of None \<Rightarrow> None | Some m \<Rightarrow> Some (var XOR ucast m))"

definition IS_BIT_SET :: "'a::len word \<Rightarrow> int \<Rightarrow> bool option" where
  "IS_BIT_SET var b =
     (case shl_1U b of None \<Rightarrow> None | Some m \<Rightarrow> Some (var AND ucast m \<noteq> 0))"

definition IS_BIT_CLEAR :: "'a::len word \<Rightarrow> int \<Rightarrow> bool option" where
  "IS_BIT_CLEAR var b =
     (case shl_1U b of None \<Rightarrow> None | Some m \<Rightarrow> Some (var AND ucast m = 0))"

subsection \<open>Status codes\<close>

text \<open>
  The enumeration \<open>i_status\<close> as the header declares it: one entry for each enumerator,
  in the order of the header, with the section comment it stands under, its name and
  its value. The header declares the name \<open>STATUS_BUSY\<close> twice, so the enumerators are
  a list of declarations and not a datatype of names.
\<close>

datatype status_section =
    General_Status
  | Memory_and_Alignment
  | Access_and_Permissions
  | Activity_States
  | Debug_and_Warnings
  | Reserved_for_Future_Use

type_synonym enumerator = "status_section \<times> string \<times> int"

definition i_status :: "enumerator list" where
  "i_status =
    [(General_Status, ''STATUS_OK'', 0x01),
     (General_Status, ''STATUS_ERROR'', 0x02),
     (General_Status, ''STATUS_TIMEOUT'', 0x03),
     (General_Status, ''STATUS_BUSY'', 0x04),
     (General_Status, ''STATUS_IDLE'', 0x05),
     (General_Status, ''STATUS_NOT_FOUND'', 0x06),
     (General_Status, ''STATUS_UNSUPPORTED'', 0x07),
     (General_Status, ''STATUS_INITIALIZED'', 0x08),
     (General_Status, ''STATUS_NOT_INITIALIZED'', 0x09),
     (General_Status, ''STATUS_IN_PROGRESS'', 0x0A),
     (General_Status, ''STATUS_COMPLETED'', 0x0B),
     (Memory_and_Alignment, ''STATUS_MEM_ALIGNED'', 0x10),
     (Memory_and_Alignment, ''STATUS_MEM_UNALIGNED'', 0x11),
     (Memory_and_Alignment, ''STATUS_MEM_FULL'', 0x12),
     (Memory_and_Alignment, ''STATUS_MEM_EMPTY'', 0x13),
     (Memory_and_Alignment, ''STATUS_OVERFLOW'', 0x14),
     (Memory_and_Alignment, ''STATUS_UNDERFLOW'', 0x15),
     (Access_and_Permissions, ''STATUS_ACCESS_GRANTED'', 0x20),
     (Access_and_Permissions, ''STATUS_ACCESS_DENIED'', 0x21),
     (Access_and_Permissions, ''STATUS_LOCKED'', 0x22),
     (Access_and_Permissions, ''STATUS_UNLOCKED'', 0x23),
     (Activity_States, ''STATUS_ACTIVE'', 0x30),
     (Activity_States, ''STATUS_INACTIVE'', 0x31),
     (Activity_States, ''STATUS_STOPPED'', 0x32),
     (Activity_States, ''STATUS_RUNNING'', 0x33),
     (Activity_States, ''STATUS_SLEEPING'', 0x34),
     (Activity_States, ''STATUS_STANDBY'', 0x35),
     (Activity_States, ''STATUS_NOT_READY'', 0x36),
     (Activity_States, ''STATUS_BUSY'', 0x37),
     (Debug_and_Warnings, ''STATUS_WARNING'', 0x40),
     (Debug_and_Warnings, ''STATUS_SELF_TEST_PASS'', 0xC0),
     (Debug_and_Warnings, ''STATUS_SELF_TEST_FAIL'', 0xC1),
     (Debug_and_Warnings, ''STATUS_DEBUG_1'', 0xE1),
     (Debug_and_Warnings, ''STATUS_DEBUG_2'', 0xE2),
     (Debug_and_Warnings, ''STATUS_DEBUG_3'', 0xE3),
     (Reserved_for_Future_Use, ''STATUS_NOT_IMPLEMENTED'', 0xFD),
     (Reserved_for_Future_Use, ''STATUS_UNKNOWN'', 0xFE)]"

text \<open>The values the header gives to a name, in the order of the header.\<close>

definition status_values :: "string \<Rightarrow> int list" where
  "status_values name = map (\<lambda>(s, n, v). v) (filter (\<lambda>(s, n, v). n = name) i_status)"

text \<open>
  The bands of section 3 of the specification, one for each group of status codes:
  General 0x01--0x0B, Memory/alignment 0x10--0x15, Access/permission 0x20--0x23,
  Activity 0x30--0x37, Diagnostics 0x40, 0xC0--0xC1 and 0xE1--0xE3, Reserved 0xFD--0xFE.
\<close>

fun spec_band :: "status_section \<Rightarrow> int \<Rightarrow> bool" where
  "spec_band General_Status v \<longleftrightarrow> 0x01 \<le> v \<and> v \<le> 0x0B"
| "spec_band Memory_and_Alignment v \<longleftrightarrow> 0x10 \<le> v \<and> v \<le> 0x15"
| "spec_band Access_and_Permissions v \<longleftrightarrow> 0x20 \<le> v \<and> v \<le> 0x23"
| "spec_band Activity_States v \<longleftrightarrow> 0x30 \<le> v \<and> v \<le> 0x37"
| "spec_band Debug_and_Warnings v \<longleftrightarrow>
     v = 0x40 \<or> (0xC0 \<le> v \<and> v \<le> 0xC1) \<or> (0xE1 \<le> v \<and> v \<le> 0xE3)"
| "spec_band Reserved_for_Future_Use v \<longleftrightarrow> 0xFD \<le> v \<and> v \<le> 0xFE"

subsection \<open>Variable types\<close>

text \<open>
  The enumeration \<open>var_type\<close>: its sixteen names in the order of the header, the value
  the header gives to each, and what the comment beside each says the name stands for
  (the width of the integer in bits, whether it is signed, whether it is an array).
\<close>

datatype var_type =
    VAR_TYPE_U8
  | VAR_TYPE_I8
  | VAR_TYPE_U16
  | VAR_TYPE_I16
  | VAR_TYPE_U32
  | VAR_TYPE_I32
  | VAR_TYPE_U64
  | VAR_TYPE_I64
  | VAR_TYPE_U8_ARR
  | VAR_TYPE_I8_ARR
  | VAR_TYPE_U16_ARR
  | VAR_TYPE_I16_ARR
  | VAR_TYPE_U32_ARR
  | VAR_TYPE_I32_ARR
  | VAR_TYPE_U64_ARR
  | VAR_TYPE_I64_ARR

fun var_type_value :: "var_type \<Rightarrow> int" where
  "var_type_value VAR_TYPE_U8 = 0x01"
| "var_type_value VAR_TYPE_I8 = 0x11"
| "var_type_value VAR_TYPE_U16 = 0x02"
| "var_type_value VAR_TYPE_I16 = 0x12"
| "var_type_value VAR_TYPE_U32 = 0x04"
| "var_type_value VAR_TYPE_I32 = 0x14"
| "var_type_value VAR_TYPE_U64 = 0x08"
| "var_type_value VAR_TYPE_I64 = 0x18"
| "var_type_value VAR_TYPE_U8_ARR = 0x21"
| "var_type_value VAR_TYPE_I8_ARR = 0x31"
| "var_type_value VAR_TYPE_U16_ARR = 0x22"
| "var_type_value VAR_TYPE_I16_ARR = 0x32"
| "var_type_value VAR_TYPE_U32_ARR = 0x24"
| "var_type_value VAR_TYPE_I32_ARR = 0x34"
| "var_type_value VAR_TYPE_U64_ARR = 0x28"
| "var_type_value VAR_TYPE_I64_ARR = 0x38"

record var_type_doc =
  doc_bits :: nat
  doc_signed :: bool
  doc_array :: bool

fun var_type_comment :: "var_type \<Rightarrow> var_type_doc" where
  "var_type_comment VAR_TYPE_U8 = \<lparr>doc_bits = 8, doc_signed = False, doc_array = False\<rparr>"
| "var_type_comment VAR_TYPE_I8 = \<lparr>doc_bits = 8, doc_signed = True, doc_array = False\<rparr>"
| "var_type_comment VAR_TYPE_U16 = \<lparr>doc_bits = 16, doc_signed = False, doc_array = False\<rparr>"
| "var_type_comment VAR_TYPE_I16 = \<lparr>doc_bits = 16, doc_signed = True, doc_array = False\<rparr>"
| "var_type_comment VAR_TYPE_U32 = \<lparr>doc_bits = 32, doc_signed = False, doc_array = False\<rparr>"
| "var_type_comment VAR_TYPE_I32 = \<lparr>doc_bits = 32, doc_signed = True, doc_array = False\<rparr>"
| "var_type_comment VAR_TYPE_U64 = \<lparr>doc_bits = 64, doc_signed = False, doc_array = False\<rparr>"
| "var_type_comment VAR_TYPE_I64 = \<lparr>doc_bits = 64, doc_signed = True, doc_array = False\<rparr>"
| "var_type_comment VAR_TYPE_U8_ARR = \<lparr>doc_bits = 8, doc_signed = False, doc_array = True\<rparr>"
| "var_type_comment VAR_TYPE_I8_ARR = \<lparr>doc_bits = 8, doc_signed = True, doc_array = True\<rparr>"
| "var_type_comment VAR_TYPE_U16_ARR = \<lparr>doc_bits = 16, doc_signed = False, doc_array = True\<rparr>"
| "var_type_comment VAR_TYPE_I16_ARR = \<lparr>doc_bits = 16, doc_signed = True, doc_array = True\<rparr>"
| "var_type_comment VAR_TYPE_U32_ARR = \<lparr>doc_bits = 32, doc_signed = False, doc_array = True\<rparr>"
| "var_type_comment VAR_TYPE_I32_ARR = \<lparr>doc_bits = 32, doc_signed = True, doc_array = True\<rparr>"
| "var_type_comment VAR_TYPE_U64_ARR = \<lparr>doc_bits = 64, doc_signed = False, doc_array = True\<rparr>"
| "var_type_comment VAR_TYPE_I64_ARR = \<lparr>doc_bits = 64, doc_signed = True, doc_array = True\<rparr>"

section \<open>Properties\<close>

subsection \<open>Timeout\<close>

text \<open>What the macro computes as the elapsed time, with the wrap-around worked out.\<close>

lemma iTIMEOUT_elapsed_code:
  "iTIMEOUT_elapsed start current =
     (if start < current then start + current + 1 else start - current)"
  by (simp add: iTIMEOUT_elapsed_def UINT_MAX_def)

text \<open>
  C1: \<open>iTIMEOUT(start, current, timeout)\<close> is 1 exactly when the time elapsed from \<open>start\<close>
  to \<open>current\<close> is at least \<open>timeout\<close>; in particular \<open>iTIMEOUT(100, 130, 40)\<close> is to be 0,
  the elapsed time being 30. The macro does not do this: in the branch \<open>start < current\<close>
  it subtracts \<open>UINT_MAX - current\<close> from \<open>start\<close>, which is \<open>start + current + 1\<close> on the
  ring, here 231, and it returns 1.
\<close>

theorem iTIMEOUT_expired_before_timeout:
  "iTIMEOUT 100 130 40 = 1
   \<and> iTIMEOUT_elapsed 100 130 = 231
   \<and> spec_elapsed 100 130 = 30
   \<and> \<not> spec_timeout_expired 100 130 40"
  by (simp add: iTIMEOUT_def iTIMEOUT_elapsed_def UINT_MAX_def
      spec_timeout_expired_def spec_elapsed_def)

text \<open>
  The wrapped counter of the specification's third example, ten ticks before the counter
  wraps: the macro takes the branch \<open>start - current\<close> and reports the timeout of 20 as
  expired after 15 ticks. The start is given for a ring of size \<open>2 ^ 32\<close> and for one of
  size \<open>UINT_MAX\<close>.
\<close>

lemma iTIMEOUT_wrapped_counter:
  "iTIMEOUT 0xFFFFFFF6 5 20 = 1
   \<and> spec_elapsed 0xFFFFFFF6 5 = 15
   \<and> \<not> spec_timeout_expired 0xFFFFFFF6 5 20
   \<and> iTIMEOUT (UINT_MAX - 10) 5 20 = 1"
  by (simp add: iTIMEOUT_def iTIMEOUT_elapsed_def UINT_MAX_def
      spec_timeout_expired_def spec_elapsed_def)

text \<open>
  On the first example of the specification the macro and the specification agree: the
  macro computes 251 for the elapsed time of 50, and both are at least 40.
\<close>

lemma iTIMEOUT_first_example:
  "iTIMEOUT 100 150 40 = 1 \<and> spec_timeout_expired 100 150 40"
  by (simp add: iTIMEOUT_def iTIMEOUT_elapsed_def UINT_MAX_def
      spec_timeout_expired_def spec_elapsed_def)

subsection \<open>Array size\<close>

text \<open>
  C8: for an array of a fixed number of elements, \<open>ARRAY_SIZE\<close> is the number of its
  elements whatever the type of the elements (an object type has a size of at least one
  byte); on an array of 7 elements it is 7.
\<close>

theorem ARRAY_SIZE_counts_elements:
  assumes "0 < sizeof_elem arr"
  shows "ARRAY_SIZE arr = length (elems arr)"
  using assms by (simp add: ARRAY_SIZE_def sizeof_array_def)

theorem ARRAY_SIZE_counts_elements_witness:
  "0 < sizeof_elem (C_Array 4 [10, 20, 30, 40, 50, 60, 70 :: int])
   \<and> ARRAY_SIZE (C_Array 4 [10, 20, 30, 40, 50, 60, 70 :: int]) = 7
   \<and> ARRAY_SIZE (C_Array 1 ''abcdefg'') = 7"
  using ARRAY_SIZE_counts_elements [of "C_Array 4 [10, 20, 30, 40, 50, 60, 70 :: int]"]
    ARRAY_SIZE_counts_elements [of "C_Array 1 ''abcdefg''"]
  by simp

subsection \<open>Minimum, maximum, clamp\<close>

text \<open>
  C7: for all comparable \<open>a\<close> and \<open>b\<close>, \<open>MIN(a, b)\<close> is the lesser and \<open>MAX(a, b)\<close> the
  greater of the two; when the two are equal each macro returns that common value.
\<close>

theorem MIN_MAX_lesser_greater:
  fixes a b :: "'a::linorder"
  shows "MIN_macro a b = min a b \<and> MAX_macro a b = max a b
    \<and> MIN_macro a a = a \<and> MAX_macro a a = a"
  by (auto simp add: MIN_macro_def MAX_macro_def min_def max_def)

text \<open>
  C5: for all \<open>v\<close>, \<open>lo\<close>, \<open>hi\<close> with \<open>lo \<le> hi\<close>, \<open>CLAMP(v, lo, hi)\<close> is \<open>lo\<close> when \<open>v < lo\<close>,
  \<open>hi\<close> when \<open>v > hi\<close>, and \<open>v\<close> when \<open>lo \<le> v \<le> hi\<close>.
\<close>

theorem CLAMP_bounds:
  fixes val lo hi :: "'a::linorder"
  assumes "lo \<le> hi"
  shows "CLAMP val lo hi = (if val < lo then lo else if hi < val then hi else val)"
  using assms by (auto simp add: CLAMP_def MIN_macro_def MAX_macro_def)

theorem CLAMP_bounds_witness:
  "(0::int) \<le> 10 \<and> CLAMP (- 3) 0 10 = (0::int) \<and> CLAMP 15 0 10 = (10::int)
   \<and> CLAMP 7 0 10 = (7::int)"
  using CLAMP_bounds [of "0::int" 10 "- 3"] CLAMP_bounds [of "0::int" 10 15]
    CLAMP_bounds [of "0::int" 10 7]
  by simp

subsection \<open>Bit operations\<close>

lemma shl_1U_Some: "0 \<le> b \<Longrightarrow> b < 32 \<Longrightarrow> shl_1U b = Some (2 ^ nat b)"
  by (simp add: shl_1U_def)

text \<open>Converted to the type of \<open>var\<close>, the mask is the same power of two, or 0 when
  the type of \<open>var\<close> has no such bit.\<close>

lemma ucast_mask:
  "n < 32 \<Longrightarrow> (ucast (2 ^ n :: 32 word) :: 'a::len word) = 2 ^ n"
  by (rule bit_word_eqI) (auto simp add: bit_simps)

lemma and_mask_eq_0_iff:
  fixes var :: "'a::len word"
  shows "var AND 2 ^ n = 0 \<longleftrightarrow> \<not> bit var n"
  using bit_iff_and_push_bit_not_eq_0 [of var n] by simp

text \<open>
  For an index from 0 to 31 each macro is the bit operation its name says, but for
  \<open>CLEAR_BIT\<close> on a variable wider than 32 bits: the complement of the mask is taken in
  32 bits and zero-extended, so the conjunction also clears every bit from position 32
  upwards.
\<close>

lemma SET_BIT_eq:
  "0 \<le> b \<Longrightarrow> b < 32 \<Longrightarrow> SET_BIT var b = Some (set_bit (nat b) var)"
  by (simp add: SET_BIT_def shl_1U_Some ucast_mask set_bit_eq_or push_bit_eq_mult)

lemma CLEAR_BIT_eq:
  "0 \<le> b \<Longrightarrow> b < 32 \<Longrightarrow>
   CLEAR_BIT var b = Some (take_bit 32 (unset_bit (nat b) var))"
  unfolding CLEAR_BIT_def
  by (simp add: shl_1U_Some) (rule bit_word_eqI, auto simp add: bit_simps)


lemma IS_BIT_SET_eq:
  "0 \<le> b \<Longrightarrow> b < 32 \<Longrightarrow> IS_BIT_SET var b = Some (bit var (nat b))"
  by (simp add: IS_BIT_SET_def shl_1U_Some ucast_mask and_mask_eq_0_iff)

lemma IS_BIT_CLEAR_eq:
  "0 \<le> b \<Longrightarrow> b < 32 \<Longrightarrow> IS_BIT_CLEAR var b = Some (\<not> bit var (nat b))"
  by (simp add: IS_BIT_CLEAR_def shl_1U_Some ucast_mask and_mask_eq_0_iff)





text \<open>
  C4, as the specification states it: for every word and every index below the width of
  the word, testing a bit after setting it gives true, testing it for clear after clearing
  it gives true, and toggling it twice gives the word back. On a 64-bit word this fails
  from index 32 on: the shift \<^verbatim>\<open>1U << 32\<close> is undefined, and with it all three results.
\<close>

theorem bit_ops_roundtrip_fails_at_index_32:
  "(0::int) \<le> 32 \<and> (32::int) < int LENGTH(64)
   \<and> Option.bind (SET_BIT (0 :: 64 word) 32) (\<lambda>v. IS_BIT_SET v 32) \<noteq> Some True
   \<and> Option.bind (CLEAR_BIT (0 :: 64 word) 32) (\<lambda>v. IS_BIT_CLEAR v 32) \<noteq> Some True
   \<and> Option.bind (TOGGLE_BIT (0 :: 64 word) 32) (\<lambda>v. TOGGLE_BIT v 32) \<noteq> Some 0"
  by (simp add: SET_BIT_def CLEAR_BIT_def TOGGLE_BIT_def shl_1U_def)

text \<open>
  C4, amended: for every word and every index that is below the width of the word and
  below 32, \<open>IS_BIT_SET\<close> after \<open>SET_BIT\<close> is true, \<open>IS_BIT_CLEAR\<close> after \<open>CLEAR_BIT\<close> is
  true, and \<open>TOGGLE_BIT\<close> applied twice gives the original word.
\<close>

theorem bit_ops_roundtrip:
  fixes var :: "'a::len word"
  assumes "0 \<le> b" and "b < int LENGTH('a)" and "b < 32"
  shows "Option.bind (SET_BIT var b) (\<lambda>v. IS_BIT_SET v b) = Some True
    \<and> Option.bind (CLEAR_BIT var b) (\<lambda>v. IS_BIT_CLEAR v b) = Some True
    \<and> Option.bind (TOGGLE_BIT var b) (\<lambda>v. TOGGLE_BIT v b) = Some var"
proof -
  from assms have n: "nat b < LENGTH('a)" by simp
  have s: "Option.bind (SET_BIT var b) (\<lambda>v. IS_BIT_SET v b) = Some True"
    using assms n by (simp add: SET_BIT_eq IS_BIT_SET_eq bit_simps)
  have c: "Option.bind (CLEAR_BIT var b) (\<lambda>v. IS_BIT_CLEAR v b) = Some True"
    using assms n by (simp add: CLEAR_BIT_eq IS_BIT_CLEAR_eq bit_simps)
  have t: "Option.bind (TOGGLE_BIT var b) (\<lambda>v. TOGGLE_BIT v b) = Some var"
    using assms by (simp add: TOGGLE_BIT_def shl_1U_Some xor.assoc)
  from s c t show ?thesis by simp
qed

theorem bit_ops_roundtrip_witness:
  "(0::int) \<le> 3 \<and> (3::int) < int LENGTH(8) \<and> (3::int) < 32
   \<and> Option.bind (SET_BIT (0x05 :: 8 word) 3) (\<lambda>v. IS_BIT_SET v 3) = Some True
   \<and> Option.bind (CLEAR_BIT (0x0D :: 8 word) 3) (\<lambda>v. IS_BIT_CLEAR v 3) = Some True
   \<and> Option.bind (TOGGLE_BIT (0x05 :: 8 word) 3) (\<lambda>v. TOGGLE_BIT v 3) = Some 0x05"
  using bit_ops_roundtrip [of 3 "0x05 :: 8 word"] bit_ops_roundtrip [of 3 "0x0D :: 8 word"]
  by simp




text \<open>
  C10: for every word and every index from 0 to 31, \<open>IS_BIT_SET\<close> and \<open>IS_BIT_CLEAR\<close>
  return opposite truth values: the first returns the bit of the word at the index, the
  second its negation.
\<close>

theorem IS_BIT_SET_CLEAR_opposite:
  fixes var :: "'a::len word"
  assumes "0 \<le> b" and "b < 32"
  shows "IS_BIT_SET var b = Some (bit var (nat b))
    \<and> IS_BIT_CLEAR var b = Some (\<not> bit var (nat b))"
  using assms by (simp add: IS_BIT_SET_eq IS_BIT_CLEAR_eq)

theorem IS_BIT_SET_CLEAR_opposite_witness:
  "(0::int) \<le> 2 \<and> (2::int) < 32
   \<and> IS_BIT_SET (5 :: 16 word) 2 = Some True \<and> IS_BIT_CLEAR (5 :: 16 word) 2 = Some False
   \<and> IS_BIT_SET (5 :: 16 word) 1 = Some False \<and> IS_BIT_CLEAR (5 :: 16 word) 1 = Some True"
  using IS_BIT_SET_CLEAR_opposite [of 2 "5 :: 16 word"]
    IS_BIT_SET_CLEAR_opposite [of 1 "5 :: 16 word"]
  by simp

subsection \<open>Status codes\<close>

text \<open>The values of the enumerators are pairwise distinct.\<close>

lemma i_status_values_distinct: "distinct (map (\<lambda>(s, n, v). v) i_status)"
  by (simp add: i_status_def)

text \<open>
  C2: every name of the enumeration is to stand for exactly one value. The header gives
  the name \<open>STATUS_BUSY\<close> two values, 0x04 among the general status codes and 0x37 among
  the activity states.
\<close>

theorem STATUS_BUSY_two_values:
  "status_values ''STATUS_BUSY'' = [0x04, 0x37]"
  by (simp add: status_values_def i_status_def)

text \<open>
  C6: every enumerator of \<open>i_status\<close> has a value that fits in one byte and that lies in
  the band the specification assigns to its group.
\<close>

theorem i_status_in_band:
  assumes "(s, n, v) \<in> set i_status"
  shows "0 \<le> v \<and> v \<le> 0xFF \<and> spec_band s v"
  using assms unfolding i_status_def by auto

theorem i_status_in_band_witness:
  "(Activity_States, ''STATUS_BUSY'', 0x37) \<in> set i_status
   \<and> (0::int) \<le> 0x37 \<and> (0x37::int) \<le> 0xFF \<and> spec_band Activity_States 0x37"
proof -
  have h: "(Activity_States, ''STATUS_BUSY'', 0x37) \<in> set i_status"
    by (simp add: i_status_def)
  from i_status_in_band [OF h] h show ?thesis by simp
qed

subsection \<open>Variable types\<close>

text \<open>
  C3: two distinct names of \<open>var_type\<close> have distinct values; and for every name the
  facets read off its value by bit masking alone are the ones its comment documents: the
  low nibble (mask 0x0F) is the width in bytes and is 1, 2, 4 or 8, bit 0x10 is set exactly
  for the signed types, bit 0x20 exactly for the arrays.
\<close>

theorem var_type_values:
  "(a \<noteq> b \<longrightarrow> var_type_value a \<noteq> var_type_value b)
   \<and> var_type_value a AND 0x0F = int (doc_bits (var_type_comment a)) div 8
   \<and> var_type_value a AND 0x0F \<in> {1, 2, 4, 8}
   \<and> (var_type_value a AND 0x10 \<noteq> 0) = doc_signed (var_type_comment a)
   \<and> (var_type_value a AND 0x20 \<noteq> 0) = doc_array (var_type_comment a)"
proof -
  have inj: "a \<noteq> b \<longrightarrow> var_type_value a \<noteq> var_type_value b"
    by (cases a; cases b; simp)
  have facets:
    "var_type_value a AND 0x0F = int (doc_bits (var_type_comment a)) div 8
     \<and> var_type_value a AND 0x0F \<in> {1, 2, 4, 8}
     \<and> (var_type_value a AND 0x10 \<noteq> 0) = doc_signed (var_type_comment a)
     \<and> (var_type_value a AND 0x20 \<noteq> 0) = doc_array (var_type_comment a)"
    by (cases a; simp)
  from inj facets show ?thesis by blast
qed

theorem var_type_values_witness:
  "VAR_TYPE_I32_ARR \<noteq> VAR_TYPE_I32
   \<and> var_type_value VAR_TYPE_I32_ARR = 0x34
   \<and> var_type_value VAR_TYPE_I32_ARR \<noteq> var_type_value VAR_TYPE_I32
   \<and> var_type_value VAR_TYPE_I32_ARR AND 0x0F = 4
   \<and> var_type_value VAR_TYPE_I32_ARR AND 0x10 \<noteq> 0
   \<and> var_type_value VAR_TYPE_I32_ARR AND 0x20 \<noteq> 0"
  using var_type_values [of VAR_TYPE_I32_ARR VAR_TYPE_I32] by simp

end
